theory Spec2Isabelle
  imports Main "HOL-Library.Sublist"
begin

section \<open>The voice client of \<open>App.tsx\<close>: data\<close>

text \<open>
  \<open>App.tsx\<close> is one React function component. Its mutable data are of two kinds.

  \<^item> \<^emph>\<open>State variables\<close> (\<open>useState\<close>): \<open>isRecording\<close>, \<open>isPlaying\<close>, \<open>isPaused\<close>,
    \<open>isProcessing\<close>, \<open>transcript\<close>, \<open>aiResponse\<close>. Inside one run of \<open>App()\<close> each of them
    is a \<open>const\<close>; a setter (\<open>setIsPaused(true)\<close>) does not change that constant, it stores
    the value that the \<^emph>\<open>next\<close> run of \<open>App()\<close> will read. Every function declared in
    \<open>App()\<close> (\<open>processPausedAudio\<close>, \<open>setupMediaRecorder\<close>, \<open>handleMicClick\<close>, and the
    \<open>ondataavailable\<close> arrow function created inside \<open>setupMediaRecorder\<close>) is a closure
    over the constants of the run that created it.
  \<^item> \<^emph>\<open>Refs\<close> (\<open>useRef\<close>): \<open>wsRef\<close>, \<open>mediaRecorderRef\<close>, \<open>audioChunksRef\<close>,
    \<open>silentChunksRef\<close>, \<open>currentAudioChunksRef\<close>. A ref is one mutable cell shared by all
    runs; reads and writes of \<open>.current\<close> are immediate.

  The embedding keeps the two apart. The record \<open>flags\<close> holds the four boolean state
  variables. The application state \<open>app\<close> has a field \<open>ui\<close> with the values the setters
  have stored so far, and one field per ref. A function of the source that \<^emph>\<open>reads\<close> a
  state variable takes the \<open>flags\<close> of its scope as an explicit first argument \<open>v\<close>; its
  setters update \<open>ui\<close>. The button's \<open>onClick\<close> is bound again at every run of \<open>App()\<close>,
  so \<open>handleMicClick\<close> is called with \<open>v = ui s\<close>. The \<open>ondataavailable\<close> handler and the
  socket's \<open>onopen\<close> handler are assigned once, when the recorder and the socket are
  created; the objects therefore carry the \<open>flags\<close> of the scope that created them.
\<close>

text \<open>A recorded chunk (\<open>e.data\<close>, a \<open>Blob\<close>) is identified with its byte size
  \<open>e.data.size\<close>, the only attribute the code reads.\<close>

type_synonym blob = nat

text \<open>What travels on the socket: a string, or a binary payload given by the list of
  chunks it is made of (\<open>new Blob(chunksToProcess)\<close>; a single chunk is a one-element
  list).\<close>

datatype message = Text string | Binary "blob list"

datatype ready_state = CONNECTING | OPEN | CLOSING | CLOSED

text \<open>\<open>MediaRecorder.state\<close>; the code never calls \<open>pause()\<close>, so \<open>"paused"\<close> does not
  occur.\<close>

datatype recorder_state = Inactive | Recording

record flags =
  isRecording :: bool
  isPlaying :: bool
  isPaused :: bool
  isProcessing :: bool

record websocket =
  readyState :: ready_state
  onopen_scope :: flags

record media_recorder =
  state :: recorder_state
  ondataavailable_scope :: flags

record app =
  ui :: flags
  transcript :: string
  aiResponse :: string
  wsRef :: "websocket option"
  mediaRecorderRef :: "media_recorder option"
  audioChunksRef :: "blob list"
  silentChunksRef :: int
  currentAudioChunksRef :: "blob list"
  sent :: "message list"

text \<open>The field \<open>sent\<close> lists, in order, every argument of a \<open>wsRef.current.send\<close> call
  that the code has made.\<close>

definition PAUSE_THRESHOLD :: int where
  "PAUSE_THRESHOLD = 2"

definition SILENCE_THRESHOLD :: int where
  "SILENCE_THRESHOLD = 5"

definition init :: app where
  "init = \<lparr> ui = \<lparr> isRecording = False, isPlaying = False, isPaused = False,
                   isProcessing = False \<rparr>,
            transcript = [], aiResponse = [], wsRef = None, mediaRecorderRef = None,
            audioChunksRef = [], silentChunksRef = 0, currentAudioChunksRef = [],
            sent = [] \<rparr>"

section \<open>Setters and small helpers\<close>

definition setIsRecording :: "bool \<Rightarrow> app \<Rightarrow> app" where
  "setIsRecording b s = s\<lparr> ui := (ui s)\<lparr> isRecording := b \<rparr> \<rparr>"

definition setIsPlaying :: "bool \<Rightarrow> app \<Rightarrow> app" where
  "setIsPlaying b s = s\<lparr> ui := (ui s)\<lparr> isPlaying := b \<rparr> \<rparr>"

definition setIsPaused :: "bool \<Rightarrow> app \<Rightarrow> app" where
  "setIsPaused b s = s\<lparr> ui := (ui s)\<lparr> isPaused := b \<rparr> \<rparr>"

definition setIsProcessing :: "bool \<Rightarrow> app \<Rightarrow> app" where
  "setIsProcessing b s = s\<lparr> ui := (ui s)\<lparr> isProcessing := b \<rparr> \<rparr>"

definition setTranscript :: "string \<Rightarrow> app \<Rightarrow> app" where
  "setTranscript t s = s\<lparr> transcript := t \<rparr>"

definition setAIResponse :: "string \<Rightarrow> app \<Rightarrow> app" where
  "setAIResponse t s = s\<lparr> aiResponse := t \<rparr>"

text \<open>The test \<open>wsRef.current && wsRef.current.readyState === WebSocket.OPEN\<close>.\<close>

definition ws_open :: "app \<Rightarrow> bool" where
  "ws_open s = (case wsRef s of None \<Rightarrow> False | Some w \<Rightarrow> readyState w = OPEN)"

text \<open>\<open>wsRef.current.send(m)\<close>, which the code only calls behind that test.\<close>

definition ws_send :: "message \<Rightarrow> app \<Rightarrow> app" where
  "ws_send m s = s\<lparr> sent := sent s @ [m] \<rparr>"

text \<open>The test \<open>mediaRecorderRef.current && mediaRecorderRef.current.state !== "inactive"\<close>.\<close>

definition recorder_active :: "app \<Rightarrow> bool" where
  "recorder_active s =
     (case mediaRecorderRef s of None \<Rightarrow> False | Some r \<Rightarrow> state r \<noteq> Inactive)"

section \<open>The functions of \<open>App()\<close>\<close>

text \<open>\<open>stopRecording\<close> (lines 24-43). \<open>MediaRecorder.stop()\<close> sets the recorder's state to
  \<open>"inactive"\<close> at once.\<close>

definition stopRecording :: "app \<Rightarrow> app" where
  "stopRecording s =
     (let s1 = (case mediaRecorderRef s of
                  None \<Rightarrow> s
                | Some r \<Rightarrow>
                    if state r \<noteq> Inactive
                    then setIsProcessing False (setIsPaused False (setIsRecording False
                           (s\<lparr> mediaRecorderRef := Some (r\<lparr> state := Inactive \<rparr>) \<rparr>)))
                    else s)
      in s1\<lparr> silentChunksRef := 0 \<rparr>)"

text \<open>\<open>processPausedAudio\<close> (lines 46-69); \<open>v\<close> is the scope it was declared in.\<close>

definition processPausedAudio :: "flags \<Rightarrow> app \<Rightarrow> app" where
  "processPausedAudio v s =
     (if currentAudioChunksRef s = [] \<or> isProcessing v then s
      else
        let s1 = setIsProcessing True s;
            chunksToProcess = currentAudioChunksRef s1
        in if ws_open s1
           then (ws_send (Binary chunksToProcess)
                   (ws_send (Text ''PAUSE_PROCESSING'') s1))\<lparr> currentAudioChunksRef := [] \<rparr>
           else s1)"

text \<open>\<open>playAudio\<close> (lines 72-103) up to the call of \<open>audio.play()\<close>; what the audio
  element reports afterwards is one of the three callbacks below.\<close>

definition playAudio :: "blob list \<Rightarrow> app \<Rightarrow> app" where
  "playAudio audioData s = setIsPlaying True (stopRecording s)"

definition audio_onended :: "app \<Rightarrow> app" where
  "audio_onended s =
     (if ws_open s then ws_send (Text ''CLIENT_DONE_PLAYING'') s else s)"

definition audio_onerror :: "app \<Rightarrow> app" where
  "audio_onerror s = setIsPlaying False (setAIResponse ''Error playing AI response.'' s)"

definition audio_play_catch :: "app \<Rightarrow> app" where
  "audio_play_catch s = setIsPlaying False (setAIResponse ''Could not play AI response.'' s)"

text \<open>\<open>handleWSMessage\<close> (lines 106-144). \<open>event.data.replace(p, "")\<close> removes the first
  occurrence of \<open>p\<close>, which is the prefix just tested. A binary message is passed to
  \<open>playAudio\<close> (through \<open>arrayBuffer().then\<close>, taken here as part of the same event).\<close>

definition handleWSMessage :: "message \<Rightarrow> app \<Rightarrow> app" where
  "handleWSMessage d s =
     (case d of
        Text t \<Rightarrow>
          if prefix ''[Transcript] '' t then setTranscript (drop 13 t) s
          else if prefix ''[AI] '' t then setAIResponse (drop 5 t) s
          else if prefix ''[Error] '' t then setIsPlaying False (setAIResponse t s)
          else if t = ''[Status] AI_SPEAKING'' then setIsPlaying True s
          else if t = ''[Status] AI_DONE_SPEAKING'' then s
          else if t = ''[Status] CLIENT_READY''
            then setIsProcessing False (setIsPlaying False s)
          else if prefix ''[Warning] '' t then s
          else if t = ''[Status] SKIPPING_EMPTY_INPUT''
            then setIsProcessing False (setIsPlaying False
                   (setAIResponse
                      ''Input was too short or silent, please try speaking again.'' s))
          else if t = ''[Status] PAUSE_PROCESSED'' then setIsProcessing False s
          else s
      | Binary b \<Rightarrow> playAudio b s)"

text \<open>The \<open>ondataavailable\<close> handler (lines 176-229); \<open>v\<close> is the scope of the
  \<open>setupMediaRecorder\<close> call that created it, which is also the scope of the
  \<open>processPausedAudio\<close> it calls.\<close>

definition ondataavailable :: "flags \<Rightarrow> blob \<Rightarrow> app \<Rightarrow> app" where
  "ondataavailable v e s =
     (let s1 = s\<lparr> audioChunksRef := audioChunksRef s @ [e] \<rparr>;
          s2 = (if \<not> isProcessing v
                then s1\<lparr> currentAudioChunksRef := currentAudioChunksRef s1 @ [e] \<rparr>
                else s1)
      in if isPlaying v \<or> isProcessing v then s2
         else if \<not> ws_open s2 then stopRecording s2
         else
           let isSilent = (e < 1000) in
           if isSilent then
             let s3 = s2\<lparr> silentChunksRef := silentChunksRef s2 + 1 \<rparr>;
                 s4 = (if silentChunksRef s3 \<ge> PAUSE_THRESHOLD \<and> \<not> isPaused v
                       then processPausedAudio v (setIsPaused True s3)
                       else s3)
             in if silentChunksRef s4 \<ge> SILENCE_THRESHOLD then stopRecording s4 else s4
           else
             let s3 = (if isPaused v then setIsPaused False s2 else s2);
                 s4 = s3\<lparr> silentChunksRef := 0 \<rparr>
             in if \<not> isProcessing v then ws_send (Binary [e]) s4 else s4)"

text \<open>\<open>setupMediaRecorder\<close> (lines 146-240). \<open>granted\<close> tells whether \<open>getUserMedia\<close>
  resolves; when it rejects, the \<open>catch\<close> branch runs. The new recorder is started
  (\<open>start(1000)\<close>) and its handler closes over \<open>v\<close>.\<close>

definition setupMediaRecorder :: "flags \<Rightarrow> bool \<Rightarrow> app \<Rightarrow> app" where
  "setupMediaRecorder v granted s =
     (if granted
      then setAIResponse [] (setTranscript [] (setIsRecording True
             (s\<lparr> mediaRecorderRef :=
                   Some \<lparr> state = Recording, ondataavailable_scope = v \<rparr> \<rparr>)))
      else setIsRecording False
             (setAIResponse
                ''Error initializing audio recording. Please check permissions.'' s))"

text \<open>The \<open>onclose\<close> and \<open>onerror\<close> handlers of the socket (lines 262-277).\<close>

definition ws_onclose :: "app \<Rightarrow> app" where
  "ws_onclose s =
     (setAIResponse ''Connection to server lost. Please refresh or try again.''
        (setIsPlaying False (setIsRecording False s)))\<lparr> wsRef := None \<rparr>"

definition ws_onerror :: "app \<Rightarrow> app" where
  "ws_onerror s =
     (let s1 = setIsPlaying False (setIsRecording False
                 (setAIResponse
                    ''WebSocket connection error. Please refresh or try again.'' s))
      in case wsRef s1 of
           None \<Rightarrow> s1
         | Some w \<Rightarrow> if readyState w \<noteq> OPEN then s1\<lparr> wsRef := None \<rparr> else s1)"

text \<open>\<open>handleMicClick\<close> (lines 243-285); \<open>v\<close> is the scope of the run of \<open>App()\<close> that
  rendered the button.\<close>

definition handleMicClick :: "flags \<Rightarrow> bool \<Rightarrow> app \<Rightarrow> app" where
  "handleMicClick v granted s =
     (if isPlaying v then s
      else if \<not> isRecording v then
        (let connect = s\<lparr> wsRef := Some \<lparr> readyState = CONNECTING, onopen_scope = v \<rparr> \<rparr>
         in case wsRef s of
              None \<Rightarrow> connect
            | Some w \<Rightarrow>
                if readyState w = CLOSED \<or> readyState w = CLOSING then connect
                else if readyState w = OPEN then setupMediaRecorder v granted s
                else s)
      else stopRecording s)"

text \<open>\<open>getStatusMessage\<close> (lines 302-308), the component's own reading of its flags.\<close>

definition getStatusMessage :: "flags \<Rightarrow> string" where
  "getStatusMessage v =
     (if isPlaying v then ''AI is speaking / processing... please wait''
      else if isProcessing v then ''Processing your speech while listening...''
      else if isPaused v then ''Detected pause, processing speech...''
      else if isRecording v then ''Listening to you...''
      else ''Ready for conversation'')"

section \<open>Events\<close>

text \<open>
  The browser calls the handlers one at a time. \<open>step\<close> dispatches one event to the
  handler registered for it, with the scope that handler closes over:
  \<^item> \<open>MicClick g\<close>: the button is pressed (\<open>g\<close>: the microphone is granted if asked for);
  \<^item> \<open>WsOpen g\<close>: the connecting socket opens, its \<open>onopen\<close> runs \<open>setupMediaRecorder\<close>
    of the scope that created the socket;
  \<^item> \<open>WsMessage d\<close>: a message arrives on the open socket;
  \<^item> \<open>WsClose\<close>, \<open>WsError\<close>: the socket closes (its \<open>readyState\<close> is then \<open>CLOSED\<close>) or
    reports an error;
  \<^item> \<open>Chunk e\<close>: the current recorder, while recording, delivers a chunk;
  \<^item> \<open>AudioEnded\<close>, \<open>AudioError\<close>, \<open>AudioPlayRejected\<close>: the audio element of the last
    \<open>playAudio\<close> reports.

  Only the recorder that \<open>mediaRecorderRef\<close> points to is followed: a recorder that has
  been stopped, or replaced by a later \<open>setupMediaRecorder\<close>, delivers no event here.
\<close>

datatype event =
    MicClick bool
  | WsOpen bool
  | WsMessage message
  | WsClose
  | WsError
  | Chunk blob
  | AudioEnded
  | AudioError
  | AudioPlayRejected

fun step :: "event \<Rightarrow> app \<Rightarrow> app" where
  "step (MicClick g) s = handleMicClick (ui s) g s"
| "step (WsOpen g) s =
     (case wsRef s of
        None \<Rightarrow> s
      | Some w \<Rightarrow>
          if readyState w = CONNECTING
          then setupMediaRecorder (onopen_scope w) g
                 (s\<lparr> wsRef := Some (w\<lparr> readyState := OPEN \<rparr>) \<rparr>)
          else s)"
| "step (WsMessage d) s = (if ws_open s then handleWSMessage d s else s)"
| "step WsClose s =
     (case wsRef s of
        None \<Rightarrow> s
      | Some w \<Rightarrow> ws_onclose (s\<lparr> wsRef := Some (w\<lparr> readyState := CLOSED \<rparr>) \<rparr>))"
| "step WsError s = (case wsRef s of None \<Rightarrow> s | Some w \<Rightarrow> ws_onerror s)"
| "step (Chunk e) s =
     (case mediaRecorderRef s of
        None \<Rightarrow> s
      | Some r \<Rightarrow>
          if state r = Recording then ondataavailable (ondataavailable_scope r) e s
          else s)"
| "step AudioEnded s = audio_onended s"
| "step AudioError s = audio_onerror s"
| "step AudioPlayRejected s = audio_play_catch s"

fun run :: "event list \<Rightarrow> app \<Rightarrow> app" where
  "run [] s = s"
| "run (e # es) s = run es (step e s)"

text \<open>One recorder delivering a sequence of chunks: its handler, with its fixed scope
  \<open>v\<close>, is called once per chunk.\<close>

fun deliver :: "flags \<Rightarrow> blob list \<Rightarrow> app \<Rightarrow> app" where
  "deliver v [] s = s"
| "deliver v (e # es) s = deliver v es (ondataavailable v e s)"

text \<open>The scope of the first run of \<open>App()\<close>: every flag is \<open>false\<close>.\<close>

definition fresh :: flags where
  "fresh = \<lparr> isRecording = False, isPlaying = False, isPaused = False,
            isProcessing = False \<rparr>"

section \<open>The specification's silence run\<close>

text \<open>
  These two definitions follow the words of the specification, not the code: a chunk is
  classified silent when its byte size is below 1000, and the silence run of a chunk
  sequence is the number of trailing chunks classified silent since the last chunk
  classified speech.
\<close>

definition classified_silent :: "blob \<Rightarrow> bool" where
  "classified_silent e = (e < 1000)"

definition trailing_silent :: "blob list \<Rightarrow> nat" where
  "trailing_silent es = length (takeWhile classified_silent (rev es))"

section \<open>Pause markers on the socket\<close>

text \<open>A list of sent messages in which every \<open>PAUSE_PROCESSING\<close> is immediately
  followed by a binary payload made of at least one chunk.\<close>

fun markers_paired :: "message list \<Rightarrow> bool" where
  "markers_paired [] = True"
| "markers_paired (Binary cs # ms) = markers_paired ms"
| "markers_paired (Text t # ms) =
     (if t = ''PAUSE_PROCESSING''
      then (case ms of
              Binary cs # ms' \<Rightarrow> cs \<noteq> [] \<and> markers_paired ms'
            | _ \<Rightarrow> False)
      else markers_paired ms)"

section \<open>The scopes of the handlers\<close>

text \<open>No handler held by the recorder or by the socket was created in a scope with
  \<open>isPlaying\<close> set.\<close>

definition scopes_not_playing :: "app \<Rightarrow> bool" where
  "scopes_not_playing s =
     ((case mediaRecorderRef s of
         None \<Rightarrow> True
       | Some r \<Rightarrow> \<not> isPlaying (ondataavailable_scope r))
      \<and> (case wsRef s of None \<Rightarrow> True | Some w \<Rightarrow> \<not> isPlaying (onopen_scope w)))"

section \<open>Scenarios\<close>

text \<open>Event sequences from the first render on. In each of them the user presses the
  button, the socket opens and the microphone is granted.\<close>

definition session_start :: "event list" where
  "session_start = [MicClick True, WsOpen True]"

text \<open>The service announces its reply while the recorder is running.\<close>

definition scenario_ai_speaking :: "event list" where
  "scenario_ai_speaking =
     [MicClick True, WsOpen True, WsMessage (Text ''[Status] AI_SPEAKING'')]"

text \<open>The same, and then the recorder delivers a speech chunk.\<close>

definition scenario_ai_speaking_chunk :: "event list" where
  "scenario_ai_speaking_chunk =
     [MicClick True, WsOpen True, WsMessage (Text ''[Status] AI_SPEAKING''), Chunk 1200]"

text \<open>The socket closes while the recorder is running.\<close>

definition scenario_close :: "event list" where
  "scenario_close = [MicClick True, WsOpen True, WsClose]"

text \<open>A reply arrives and its playback fails.\<close>

definition scenario_playback_error :: "event list" where
  "scenario_playback_error =
     [MicClick True, WsOpen True, Chunk 1200,
      WsMessage (Text ''[Status] AI_SPEAKING''), WsMessage (Binary [4000]), AudioError]"

text \<open>Scenario A of the specification: chunks of 1200, 1100, 900, 800 and 950 bytes.\<close>

definition scenario_A :: "event list" where
  "scenario_A =
     [MicClick True, WsOpen True,
      Chunk 1200, Chunk 1100, Chunk 900, Chunk 800, Chunk 950]"

text \<open>Scenario A up to its fourth chunk, the second silent one.\<close>

definition scenario_A_fourth :: "event list" where
  "scenario_A_fourth =
     [MicClick True, WsOpen True, Chunk 1200, Chunk 1100, Chunk 900, Chunk 800]"

text \<open>Scenario B of the specification: five chunks below 1000 bytes.\<close>

definition scenario_B :: "event list" where
  "scenario_B =
     [MicClick True, WsOpen True,
      Chunk 900, Chunk 900, Chunk 900, Chunk 900, Chunk 900]"

text \<open>A pause is flushed (third chunk), the socket closes before the service has
  acknowledged it, and the user presses the button again: a new socket and a new
  recorder are created by the scope in which \<open>isProcessing\<close> is still \<open>true\<close>.\<close>

definition scenario_reconnect :: "event list" where
  "scenario_reconnect =
     [MicClick True, WsOpen True, Chunk 1200, Chunk 900, Chunk 800,
      WsClose, MicClick True, WsOpen True]"

definition scenario_reconnect_silence :: "event list" where
  "scenario_reconnect_silence =
     [MicClick True, WsOpen True, Chunk 1200, Chunk 900, Chunk 800,
      WsClose, MicClick True, WsOpen True,
      Chunk 900, Chunk 900, Chunk 900, Chunk 900, Chunk 900]"

definition scenario_reconnect_speech :: "event list" where
  "scenario_reconnect_speech =
     [MicClick True, WsOpen True, Chunk 1200, Chunk 900, Chunk 800,
      WsClose, MicClick True, WsOpen True,
      Chunk 1500]"

text \<open>A full turn up to the end of the reply's playback: the client has sent
  \<open>CLIENT_DONE_PLAYING\<close> and waits for the service.\<close>

definition scenario_awaiting_ready :: "event list" where
  "scenario_awaiting_ready =
     [MicClick True, WsOpen True, Chunk 1200,
      WsMessage (Text ''[Status] AI_SPEAKING''), WsMessage (Binary [4000]), AudioEnded]"

text \<open>One speech chunk, then one silent chunk.\<close>

definition scenario_one_silent :: "event list" where
  "scenario_one_silent = [MicClick True, WsOpen True, Chunk 1200, Chunk 900]"

text \<open>A scope in which a flush is pending.\<close>

definition processing_scope :: flags where
  "processing_scope = \<lparr> isRecording = True, isPlaying = False, isPaused = True,
                       isProcessing = True \<rparr>"

section \<open>Frame lemmas\<close>

lemmas setter_defs = setIsRecording_def setIsPlaying_def setIsPaused_def
  setIsProcessing_def setTranscript_def setAIResponse_def ws_send_def

lemmas handler_defs = stopRecording_def processPausedAudio_def playAudio_def
  audio_onended_def audio_onerror_def audio_play_catch_def handleWSMessage_def
  ondataavailable_def setupMediaRecorder_def ws_onclose_def ws_onerror_def
  handleMicClick_def ws_open_def recorder_active_def PAUSE_THRESHOLD_def
  SILENCE_THRESHOLD_def

lemmas eval_defs = init_def fresh_def processing_scope_def
  handler_defs setter_defs Let_def

lemma stopRecording_frame:
  "wsRef (stopRecording s) = wsRef s"
  "sent (stopRecording s) = sent s"
  "audioChunksRef (stopRecording s) = audioChunksRef s"
  "currentAudioChunksRef (stopRecording s) = currentAudioChunksRef s"
  "silentChunksRef (stopRecording s) = 0"
  by (simp_all add: stopRecording_def setter_defs Let_def split: option.split)

lemma stopRecording_inactive: "\<not> recorder_active (stopRecording s)"
  by (simp add: stopRecording_def recorder_active_def setter_defs Let_def
      split: option.split)

lemma stopRecording_twice: "stopRecording (stopRecording s) = stopRecording s"
  by (simp add: stopRecording_def setter_defs Let_def split: option.split)

lemma processPausedAudio_frame:
  "wsRef (processPausedAudio v s) = wsRef s"
  "mediaRecorderRef (processPausedAudio v s) = mediaRecorderRef s"
  "silentChunksRef (processPausedAudio v s) = silentChunksRef s"
  "audioChunksRef (processPausedAudio v s) = audioChunksRef s"
  by (simp_all add: processPausedAudio_def setter_defs Let_def)

lemma recorder_active_upd:
  "recorder_active (s\<lparr> audioChunksRef := a \<rparr>) = recorder_active s"
  "recorder_active (s\<lparr> currentAudioChunksRef := c \<rparr>) = recorder_active s"
  "recorder_active (s\<lparr> silentChunksRef := n \<rparr>) = recorder_active s"
  "recorder_active (s\<lparr> ui := u \<rparr>) = recorder_active s"
  "recorder_active (s\<lparr> sent := m \<rparr>) = recorder_active s"
  "recorder_active (processPausedAudio v s) = recorder_active s"
  by (simp_all add: recorder_active_def processPausedAudio_frame)

lemma ondataavailable_wsRef: "wsRef (ondataavailable v e s) = wsRef s"
  by (simp add: ondataavailable_def Let_def stopRecording_frame processPausedAudio_frame
      setter_defs)

lemma ondataavailable_ws_open: "ws_open (ondataavailable v e s) = ws_open s"
  by (simp add: ws_open_def ondataavailable_wsRef)

text \<open>A handler whose scope has \<open>isPlaying\<close> or \<open>isProcessing\<close> set returns at line 186:
  it has only stored the chunk.\<close>

lemma ondataavailable_withheld:
  assumes "isPlaying v \<or> isProcessing v"
  shows "sent (ondataavailable v e s) = sent s"
    and "silentChunksRef (ondataavailable v e s) = silentChunksRef s"
    and "mediaRecorderRef (ondataavailable v e s) = mediaRecorderRef s"
    and "ui (ondataavailable v e s) = ui s"
  using assms by (auto simp add: ondataavailable_def Let_def)

text \<open>Otherwise, on an open socket, the counter and the recorder change as follows.\<close>

lemma ondataavailable_counter:
  assumes "\<not> isPlaying v" "\<not> isProcessing v" "ws_open s"
  shows "silentChunksRef (ondataavailable v e s) =
           (if e < 1000 \<and> silentChunksRef s + 1 < SILENCE_THRESHOLD
            then silentChunksRef s + 1 else 0)"
  using assms
  by (simp add: ondataavailable_def Let_def stopRecording_frame processPausedAudio_frame
      setter_defs ws_open_def)

lemma ondataavailable_recorder:
  assumes "\<not> isPlaying v" "\<not> isProcessing v" "ws_open s"
  shows "recorder_active (ondataavailable v e s) =
           (recorder_active s \<and>
            \<not> (e < 1000 \<and> SILENCE_THRESHOLD \<le> silentChunksRef s + 1))"
  using assms
  by (simp add: ondataavailable_def Let_def stopRecording_inactive
      processPausedAudio_frame setter_defs ws_open_def recorder_active_upd)

lemma ondataavailable_nonneg:
  assumes "0 \<le> silentChunksRef s"
  shows "0 \<le> silentChunksRef (ondataavailable v e s)"
  using assms
  by (simp add: ondataavailable_def Let_def stopRecording_frame processPausedAudio_frame
      setter_defs)

lemma deliver_snoc: "deliver v (es @ [e]) s = ondataavailable v e (deliver v es s)"
  by (induction es arbitrary: s) simp_all

lemma deliver_ws_open: "ws_open (deliver v es s) = ws_open s"
  by (induction es arbitrary: s) (simp_all add: ondataavailable_ws_open)

lemma deliver_nonneg:
  "0 \<le> silentChunksRef s \<Longrightarrow> 0 \<le> silentChunksRef (deliver v es s)"
  by (induction es arbitrary: s) (simp_all add: ondataavailable_nonneg)

lemma deliver_withheld:
  assumes "isPlaying v \<or> isProcessing v"
  shows "silentChunksRef (deliver v es s) = silentChunksRef s"
    and "recorder_active (deliver v es s) = recorder_active s"
    and "sent (deliver v es s) = sent s"
proof -
  have "silentChunksRef (deliver v es s) = silentChunksRef s
        \<and> mediaRecorderRef (deliver v es s) = mediaRecorderRef s
        \<and> sent (deliver v es s) = sent s"
    by (induction es arbitrary: s) (simp_all add: ondataavailable_withheld [OF assms])
  then show "silentChunksRef (deliver v es s) = silentChunksRef s"
    and "recorder_active (deliver v es s) = recorder_active s"
    and "sent (deliver v es s) = sent s"
    by (simp_all add: recorder_active_def)
qed

lemma trailing_silent_snoc:
  "trailing_silent (es @ [e]) = (if e < 1000 then Suc (trailing_silent es) else 0)"
  by (simp add: trailing_silent_def classified_silent_def)

text \<open>The counter follows the trailing silence, starting again from 0 at each
  \<open>SILENCE_THRESHOLD\<close>-th silent chunk in a row (where \<open>stopRecording\<close> resets it).\<close>

lemma deliver_counter:
  assumes "\<not> isPlaying v" "\<not> isProcessing v" "ws_open s" "silentChunksRef s = 0"
  shows "silentChunksRef (deliver v es s) = int (trailing_silent es mod 5)"
proof (induction es rule: rev_induct)
  case Nil
  show ?case using assms by (simp add: trailing_silent_def)
next
  case (snoc e es)
  have op: "ws_open (deliver v es s)"
    using assms by (simp add: deliver_ws_open)
  have "trailing_silent es mod 5 < 5" by simp
  then show ?case
    using snoc assms(1,2) op
    by (simp add: deliver_snoc ondataavailable_counter trailing_silent_snoc
        SILENCE_THRESHOLD_def mod_Suc) arith
qed

lemma deliver_silent_run:
  assumes "\<not> isPlaying v" "\<not> isProcessing v" "ws_open s" "recorder_active s"
    "silentChunksRef s = 0" "\<forall>e\<in>set es. e < 1000" "length es \<le> 5"
  shows "recorder_active (deliver v es s) = (length es < 5)"
  using assms(6,7)
proof (induction es rule: rev_induct)
  case Nil
  show ?case using assms by simp
next
  case (snoc e es)
  have op: "ws_open (deliver v es s)"
    using assms by (simp add: deliver_ws_open)
  have "takeWhile classified_silent (rev es) = rev es"
    using snoc.prems by (simp add: classified_silent_def)
  then have tr: "trailing_silent es = length es"
    by (simp only: trailing_silent_def length_rev)
  have cnt: "silentChunksRef (deliver v es s) = int (length es)"
    using deliver_counter [OF assms(1,2,3,5), of es] tr snoc.prems by simp
  show ?case
    using snoc assms(1,2) op cnt
    by (simp add: deliver_snoc ondataavailable_recorder SILENCE_THRESHOLD_def) arith
qed

lemma run_session_start:
  "run session_start init =
     init\<lparr> ui := fresh\<lparr> isRecording := True \<rparr>,
           wsRef := Some \<lparr> readyState = OPEN, onopen_scope = fresh \<rparr>,
           mediaRecorderRef :=
             Some \<lparr> state = Recording, ondataavailable_scope = fresh \<rparr> \<rparr>"
  by (simp add: session_start_def eval_defs)

lemma session_start_facts:
  "ws_open (run session_start init)"
  "recorder_active (run session_start init)"
  "silentChunksRef (run session_start init) = 0"
  "sent (run session_start init) = []"
  "ui (run session_start init) = fresh\<lparr> isRecording := True \<rparr>"
  unfolding run_session_start
  by (simp_all add: ws_open_def recorder_active_def init_def)

text \<open>Every handler keeps the markers paired: in every run, each \<open>PAUSE_PROCESSING\<close>
  sent is immediately followed by a payload made of at least one chunk.\<close>

lemma markers_paired_append:
  "markers_paired ms \<Longrightarrow> markers_paired (ms @ ns) = markers_paired ns"
proof (induction ms rule: markers_paired.induct)
  case 1
  show ?case by simp
next
  case (2 cs ms)
  then show ?case by simp
next
  case (3 t ms)
  show ?case
  proof (cases "t = ''PAUSE_PROCESSING''")
    case False
    with 3 show ?thesis by simp
  next
    case True
    with "3.prems" obtain cs ms' where ms: "ms = Binary cs # ms'" "cs \<noteq> []"
      and rest: "markers_paired ms'"
      by (auto split: list.splits message.splits)
    from "3.IH"(1) [OF True ms(1)] rest
    have "markers_paired (ms' @ ns) = markers_paired ns" by simp
    with True ms show ?thesis by simp
  qed
qed

lemma processPausedAudio_sent:
  "sent (processPausedAudio v s) =
     (if currentAudioChunksRef s \<noteq> [] \<and> \<not> isProcessing v \<and> ws_open s
      then sent s @ [Text ''PAUSE_PROCESSING'', Binary (currentAudioChunksRef s)]
      else sent s)"
  by (simp add: processPausedAudio_def setter_defs Let_def ws_open_def)

lemma ondataavailable_paired:
  "markers_paired (sent s) \<Longrightarrow> markers_paired (sent (ondataavailable v e s))"
  by (simp add: ondataavailable_def Let_def stopRecording_frame processPausedAudio_sent
      setter_defs markers_paired_append)

lemma handleWSMessage_sent: "sent (handleWSMessage d s) = sent s"
  by (simp add: handleWSMessage_def playAudio_def stopRecording_frame setter_defs
      split: message.split)

lemma handleMicClick_sent: "sent (handleMicClick v g s) = sent s"
  by (simp add: handleMicClick_def setupMediaRecorder_def stopRecording_frame setter_defs
      Let_def split: option.split)

lemma step_paired:
  "markers_paired (sent s) \<Longrightarrow> markers_paired (sent (step e s))"
proof (cases e)
  case (Chunk c)
  then show "markers_paired (sent s) \<Longrightarrow> ?thesis"
    by (simp add: ondataavailable_paired split: option.split)
next
  case AudioEnded
  then show "markers_paired (sent s) \<Longrightarrow> ?thesis"
    by (simp add: audio_onended_def ws_send_def markers_paired_append)
qed (simp_all add: handleWSMessage_sent handleMicClick_sent setupMediaRecorder_def
      ws_onclose_def ws_onerror_def audio_onerror_def audio_play_catch_def setter_defs
      Let_def split: option.split)

lemma run_paired:
  "markers_paired (sent s) \<Longrightarrow> markers_paired (sent (run es s))"
  by (induction es arbitrary: s) (simp_all add: step_paired)

lemma sent_markers_paired: "markers_paired (sent (run es init))"
  by (rule run_paired) (simp add: init_def)

text \<open>\<open>handleMicClick\<close> returns at once when \<open>isPlaying\<close> is set (lines 244-247), and it
  is the only way to \<open>setupMediaRecorder\<close>: in every run, the scope of the recorder's
  handler has \<open>isPlaying\<close> clear, so the test of \<open>isPlaying\<close> at line 184 never
  succeeds.\<close>

lemma stopRecording_scopes:
  "scopes_not_playing (stopRecording s) = scopes_not_playing s"
  by (simp add: scopes_not_playing_def stopRecording_def setter_defs Let_def
      split: option.split)

lemma scopes_not_playing_upd:
  "scopes_not_playing (s\<lparr> ui := u \<rparr>) = scopes_not_playing s"
  "scopes_not_playing (s\<lparr> transcript := t \<rparr>) = scopes_not_playing s"
  "scopes_not_playing (s\<lparr> aiResponse := t \<rparr>) = scopes_not_playing s"
  "scopes_not_playing (s\<lparr> sent := m \<rparr>) = scopes_not_playing s"
  by (simp_all add: scopes_not_playing_def)

lemma ondataavailable_scopes:
  "scopes_not_playing (ondataavailable v e s) = scopes_not_playing s"
proof -
  have "mediaRecorderRef (ondataavailable v e s) = mediaRecorderRef s
        \<or> (\<exists>r. mediaRecorderRef s = Some r
              \<and> mediaRecorderRef (ondataavailable v e s) = Some (r\<lparr> state := Inactive \<rparr>))"
    by (simp add: ondataavailable_def Let_def stopRecording_def processPausedAudio_frame
        setter_defs split: option.split)
  then show ?thesis
    by (auto simp add: scopes_not_playing_def ondataavailable_wsRef)
qed

lemma handleWSMessage_scopes:
  "scopes_not_playing (handleWSMessage d s) = scopes_not_playing s"
  by (simp add: handleWSMessage_def playAudio_def setter_defs scopes_not_playing_upd
      stopRecording_scopes split: message.split)

lemma setupMediaRecorder_scopes:
  "\<not> isPlaying v \<Longrightarrow> scopes_not_playing s
     \<Longrightarrow> scopes_not_playing (setupMediaRecorder v g s)"
  by (simp add: scopes_not_playing_def setupMediaRecorder_def setter_defs)

lemma handleMicClick_scopes:
  "scopes_not_playing s \<Longrightarrow> scopes_not_playing (handleMicClick v g s)"
proof (cases "isPlaying v")
  case True
  then show "scopes_not_playing s \<Longrightarrow> ?thesis"
    by (simp add: handleMicClick_def)
next
  case False
  have "scopes_not_playing
          (s\<lparr> wsRef := Some \<lparr> readyState = CONNECTING, onopen_scope = v \<rparr> \<rparr>)"
    if "scopes_not_playing s"
    using that False by (simp add: scopes_not_playing_def)
  then show "scopes_not_playing s \<Longrightarrow> ?thesis"
    using False
    by (simp add: handleMicClick_def Let_def stopRecording_scopes
        setupMediaRecorder_scopes split: option.split)
qed

lemma step_scopes:
  "scopes_not_playing s \<Longrightarrow> scopes_not_playing (step e s)"
proof (cases e)
  case (MicClick g)
  then show "scopes_not_playing s \<Longrightarrow> ?thesis"
    by (simp add: handleMicClick_scopes)
next
  case (WsOpen g)
  then show "scopes_not_playing s \<Longrightarrow> ?thesis"
    by (auto simp add: scopes_not_playing_def setupMediaRecorder_def setter_defs
        split: option.splits)
next
  case (WsMessage d)
  then show "scopes_not_playing s \<Longrightarrow> ?thesis"
    by (simp add: handleWSMessage_scopes)
next
  case WsClose
  then show "scopes_not_playing s \<Longrightarrow> ?thesis"
    by (auto simp add: scopes_not_playing_def ws_onclose_def setter_defs
        split: option.splits)
next
  case WsError
  then show "scopes_not_playing s \<Longrightarrow> ?thesis"
    by (auto simp add: scopes_not_playing_def ws_onerror_def setter_defs Let_def
        split: option.splits)
next
  case (Chunk c)
  then show "scopes_not_playing s \<Longrightarrow> ?thesis"
    by (simp add: ondataavailable_scopes split: option.split)
next
  case AudioEnded
  then show "scopes_not_playing s \<Longrightarrow> ?thesis"
    by (simp add: audio_onended_def ws_send_def scopes_not_playing_upd)
next
  case AudioError
  then show "scopes_not_playing s \<Longrightarrow> ?thesis"
    by (simp add: audio_onerror_def setter_defs scopes_not_playing_upd)
next
  case AudioPlayRejected
  then show "scopes_not_playing s \<Longrightarrow> ?thesis"
    by (simp add: audio_play_catch_def setter_defs scopes_not_playing_upd)
qed

lemma run_scopes:
  "scopes_not_playing s \<Longrightarrow> scopes_not_playing (run es s)"
  by (induction es arbitrary: s) (simp_all add: step_scopes)

lemma recorder_scope_never_playing:
  "mediaRecorderRef (run es init) = Some r \<Longrightarrow> \<not> isPlaying (ondataavailable_scope r)"
  using run_scopes [of init es]
  by (simp add: scopes_not_playing_def init_def)

text \<open>\<open>playAudio\<close> stops the recorder before it sets \<open>isPlaying\<close> (line 73).\<close>

lemma playAudio_stops_capture:
  "\<not> recorder_active (playAudio a s)" "isPlaying (ui (playAudio a s))"
  using stopRecording_inactive [of s]
  by (simp_all add: playAudio_def setIsPlaying_def recorder_active_upd)

section \<open>Capture and playback\<close>

text \<open>
  Claim C1 on a chunk that arrives after the service has announced its reply. The
  status \<open>AI_SPEAKING\<close> sets \<open>isPlaying\<close> (line 120) and the recorder goes on
  recording. The handler logs "AI is speaking, not sending audio chunk" and returns
  when \<open>isPlaying\<close> is set (lines 184-186), but the \<open>isPlaying\<close> it reads is the constant
  of the scope that created the recorder, which is \<open>false\<close>: the 1200-byte chunk is sent
  on the socket while \<open>isPlaying\<close> is set.
\<close>

theorem C1_chunk_sent_while_playing:
  "isPlaying (ui (run scenario_ai_speaking init))
   \<and> recorder_active (run scenario_ai_speaking init)
   \<and> sent (run scenario_ai_speaking init) = []
   \<and> isPlaying (ui (run scenario_ai_speaking_chunk init))
   \<and> sent (run scenario_ai_speaking_chunk init) = [Binary [1200]]"
  by (simp add: scenario_ai_speaking_def scenario_ai_speaking_chunk_def eval_defs)

section \<open>Transport faults\<close>

text \<open>
  Claim C2, as the code has it. When the socket closes or reports an error, the handler
  clears \<open>isRecording\<close> and \<open>isPlaying\<close> and sets the connectivity notice (\<open>onclose\<close>
  also clears \<open>wsRef\<close>); it leaves the recorder as it is. Capture is stopped later: a
  chunk handled while the socket is not open, by a handler in whose scope neither
  \<open>isPlaying\<close> nor \<open>isProcessing\<close> is set, calls \<open>stopRecording\<close> (line 191).
\<close>

theorem C2_transport_fault_clears_flags:
  "ui (ws_onclose s) = (ui s)\<lparr> isRecording := False, isPlaying := False \<rparr>
   \<and> aiResponse (ws_onclose s)
       = ''Connection to server lost. Please refresh or try again.''
   \<and> wsRef (ws_onclose s) = None
   \<and> mediaRecorderRef (ws_onclose s) = mediaRecorderRef s
   \<and> ui (ws_onerror s) = (ui s)\<lparr> isRecording := False, isPlaying := False \<rparr>
   \<and> aiResponse (ws_onerror s)
       = ''WebSocket connection error. Please refresh or try again.''
   \<and> mediaRecorderRef (ws_onerror s) = mediaRecorderRef s
   \<and> (\<not> isPlaying v \<and> \<not> isProcessing v \<and> \<not> ws_open s
        \<longrightarrow> \<not> recorder_active (ondataavailable v e s))"
proof -
  have close:
    "ui (ws_onclose s) = (ui s)\<lparr> isRecording := False, isPlaying := False \<rparr>
     \<and> aiResponse (ws_onclose s)
         = ''Connection to server lost. Please refresh or try again.''
     \<and> wsRef (ws_onclose s) = None
     \<and> mediaRecorderRef (ws_onclose s) = mediaRecorderRef s"
    by (simp add: ws_onclose_def setter_defs)
  have error:
    "ui (ws_onerror s) = (ui s)\<lparr> isRecording := False, isPlaying := False \<rparr>
     \<and> aiResponse (ws_onerror s)
         = ''WebSocket connection error. Please refresh or try again.''
     \<and> mediaRecorderRef (ws_onerror s) = mediaRecorderRef s"
    by (simp add: ws_onerror_def setter_defs Let_def split: option.split)
  have lazy: "\<not> recorder_active (ondataavailable v e s)"
    if "\<not> isPlaying v" "\<not> isProcessing v" "\<not> ws_open s"
    using that
    by (simp add: ondataavailable_def Let_def stopRecording_inactive ws_open_def)
  from close error lazy show ?thesis by blast
qed

text \<open>The theorem at the state the closed socket leaves, and the next chunk.\<close>

theorem C2_witness:
  "\<not> isPlaying fresh \<and> \<not> isProcessing fresh \<and> \<not> ws_open (run scenario_close init)
   \<and> recorder_active (run scenario_close init)
   \<and> \<not> recorder_active (ondataavailable fresh 1200 (run scenario_close init))"
  using C2_transport_fault_clears_flags [of "run scenario_close init" fresh 1200]
  by (simp add: scenario_close_def eval_defs)

text \<open>After the socket has closed, the recorder is still recording.\<close>

theorem C2_counterexample:
  "recorder_active (run scenario_close init)"
  by (simp add: scenario_close_def eval_defs)

section \<open>The end of playback\<close>

text \<open>
  Claim C3, as the code has it. When playback ends normally (\<open>onended\<close>), the client
  sends \<open>CLIENT_DONE_PLAYING\<close> if the socket is open, nothing otherwise, and keeps its
  flags. When playback fails (\<open>onerror\<close>, or \<open>play()\<close> rejects), nothing is sent: the
  client clears \<open>isPlaying\<close> itself and shows a notice.
\<close>

theorem C3_playback_outcomes:
  "(ws_open s \<longrightarrow> sent (audio_onended s) = sent s @ [Text ''CLIENT_DONE_PLAYING''])
   \<and> (\<not> ws_open s \<longrightarrow> sent (audio_onended s) = sent s)
   \<and> ui (audio_onended s) = ui s
   \<and> sent (audio_onerror s) = sent s
   \<and> \<not> isPlaying (ui (audio_onerror s))
   \<and> aiResponse (audio_onerror s) = ''Error playing AI response.''
   \<and> sent (audio_play_catch s) = sent s
   \<and> \<not> isPlaying (ui (audio_play_catch s))
   \<and> aiResponse (audio_play_catch s) = ''Could not play AI response.''"
  by (simp add: audio_onended_def audio_onerror_def audio_play_catch_def setter_defs)

text \<open>The theorem with the socket open, and with no socket.\<close>

theorem C3_witness:
  "ws_open (run session_start init)
   \<and> sent (audio_onended (run session_start init)) = [Text ''CLIENT_DONE_PLAYING'']
   \<and> \<not> ws_open init
   \<and> sent (audio_onended init) = []"
proof -
  have b: "\<not> ws_open init" "sent init = []"
    by (simp_all add: ws_open_def init_def)
  show ?thesis
    using session_start_facts b
      C3_playback_outcomes [of "run session_start init"] C3_playback_outcomes [of init]
    by simp
qed

text \<open>A reply whose playback fails: the only message the client has sent is the speech
  chunk; no \<open>CLIENT_DONE_PLAYING\<close> follows the failure.\<close>

theorem C3_counterexample:
  "sent (run scenario_playback_error init) = [Binary [1200]]
   \<and> \<not> isPlaying (ui (run scenario_playback_error init))"
  by (simp add: scenario_playback_error_def eval_defs)

section \<open>Pause flushes\<close>

text \<open>
  Claim C4 on scenario A. The recorder's handler was created by the first scope, where
  \<open>isPaused\<close> and \<open>isProcessing\<close> are \<open>false\<close>; \<open>setIsPaused(true)\<close> and
  \<open>setIsProcessing(true)\<close> do not reach it. The fourth chunk (second silent one) flushes
  the four buffered chunks and stores \<open>isPaused\<close> and \<open>isProcessing\<close>; the fifth chunk
  (third silent one) flushes again all the same: the socket receives
  \<open>PAUSE_PROCESSING\<close> twice.
\<close>

theorem C4_scenario_A_flushes_twice:
  "sent (run scenario_A_fourth init) =
     [Binary [1200], Binary [1100],
      Text ''PAUSE_PROCESSING'', Binary [1200, 1100, 900, 800]]
   \<and> isPaused (ui (run scenario_A_fourth init))
   \<and> isProcessing (ui (run scenario_A_fourth init))
   \<and> silentChunksRef (run scenario_A_fourth init) = 2
   \<and> sent (run scenario_A init) =
     [Binary [1200], Binary [1100],
      Text ''PAUSE_PROCESSING'', Binary [1200, 1100, 900, 800],
      Text ''PAUSE_PROCESSING'', Binary [950]]
   \<and> silentChunksRef (run scenario_A init) = 3"
  by (simp add: scenario_A_def scenario_A_fourth_def eval_defs)

section \<open>Long silence\<close>

text \<open>
  Claim C5, as the code has it. With the socket open and a handler in whose scope
  neither \<open>isPlaying\<close> nor \<open>isProcessing\<close> is set, silent chunks counted from 0 stop the
  recorder at the fifth chunk and not before. A handler in whose scope \<open>isPlaying\<close> or
  \<open>isProcessing\<close> is set returns before it counts (line 186): it neither advances the
  counter nor stops the recorder.
\<close>

theorem C5_auto_stop_unless_withheld:
  "(\<not> isPlaying v \<and> \<not> isProcessing v \<and> ws_open s \<and> recorder_active s
      \<and> silentChunksRef s = 0 \<and> (\<forall>e\<in>set es. e < 1000)
      \<and> int (length es) \<le> SILENCE_THRESHOLD
    \<longrightarrow> recorder_active (deliver v es s) = (int (length es) < SILENCE_THRESHOLD))
   \<and> (isPlaying v \<or> isProcessing v
    \<longrightarrow> recorder_active (deliver v es s) = recorder_active s
        \<and> silentChunksRef (deliver v es s) = silentChunksRef s)"
proof -
  have "recorder_active (deliver v es s) = (int (length es) < SILENCE_THRESHOLD)"
    if "\<not> isPlaying v" "\<not> isProcessing v" "ws_open s" "recorder_active s"
      "silentChunksRef s = 0" "\<forall>e\<in>set es. e < 1000"
      "int (length es) \<le> SILENCE_THRESHOLD"
    using deliver_silent_run [of v s es] that by (simp add: SILENCE_THRESHOLD_def)
  then show ?thesis
    by (auto simp add: deliver_withheld)
qed

text \<open>The theorem at a running session and five silent chunks, for the first scope and
  for a scope with a flush pending.\<close>

theorem C5_witness:
  "\<not> isPlaying fresh \<and> \<not> isProcessing fresh \<and> ws_open (run session_start init)
   \<and> recorder_active (run session_start init)
   \<and> silentChunksRef (run session_start init) = 0
   \<and> set [900, 800, 950, 10, 0] \<subseteq> {e::nat. e < 1000}
   \<and> int (length [900, 800, 950, 10, 0::nat]) \<le> SILENCE_THRESHOLD
   \<and> \<not> recorder_active (deliver fresh [900, 800, 950, 10, 0] (run session_start init))
   \<and> (isPlaying processing_scope \<or> isProcessing processing_scope)
   \<and> recorder_active
       (deliver processing_scope [900, 800, 950, 10, 0] (run session_start init))"
proof -
  have f: "\<not> isPlaying fresh" "\<not> isProcessing fresh"
    by (simp_all add: fresh_def)
  have p: "isPlaying processing_scope \<or> isProcessing processing_scope"
    by (simp add: processing_scope_def)
  have q: "\<forall>e\<in>set [900, 800, 950, 10, 0]. e < (1000::nat)"
    by simp
  have l: "int (length [900, 800, 950, 10, 0::nat]) \<le> SILENCE_THRESHOLD"
    "\<not> int (length [900, 800, 950, 10, 0::nat]) < SILENCE_THRESHOLD"
    by (simp_all add: SILENCE_THRESHOLD_def)
  have dead:
    "\<not> recorder_active (deliver fresh [900, 800, 950, 10, 0] (run session_start init))"
    using C5_auto_stop_unless_withheld
      [of fresh "run session_start init" "[900, 800, 950, 10, 0]"]
      f session_start_facts(1-3) q l
    by blast
  have live:
    "recorder_active
       (deliver processing_scope [900, 800, 950, 10, 0] (run session_start init))"
    using C5_auto_stop_unless_withheld
      [of processing_scope "run session_start init" "[900, 800, 950, 10, 0]"]
      p session_start_facts(2)
    by blast
  have q': "set [900, 800, 950, 10, 0] \<subseteq> {e::nat. e < 1000}"
    by simp
  from f p q' l(1) dead live session_start_facts(1-3) show ?thesis
    by blast
qed

text \<open>A recorder created while a flush is pending: after five silent chunks on an open
  socket it is still recording.\<close>

theorem C5_counterexample:
  "recorder_active (run scenario_reconnect_silence init)
   \<and> ws_open (run scenario_reconnect_silence init)"
  by (simp add: scenario_reconnect_silence_def eval_defs)

section \<open>The silence counter\<close>

text \<open>
  Claim C6, as the code has it. The counter \<open>silentChunksRef\<close> is never negative. With
  the socket open and a handler in whose scope neither \<open>isPlaying\<close> nor \<open>isProcessing\<close>
  is set, after every chunk sequence counted from 0 it equals the number of trailing
  silent chunks as long as that number is below \<open>SILENCE_THRESHOLD\<close>; the chunk that
  brings the run to \<open>SILENCE_THRESHOLD\<close> stops the recorder and sets the counter back
  to 0 (so in general the counter is the trailing run modulo \<open>SILENCE_THRESHOLD\<close>); a
  speech chunk sets it to 0. A handler in whose scope \<open>isPlaying\<close> or \<open>isProcessing\<close> is
  set leaves the counter as it is.
\<close>

theorem C6_silence_run_below_threshold:
  "(0 \<le> silentChunksRef s \<longrightarrow> 0 \<le> silentChunksRef (deliver v es s))
   \<and> (\<not> isPlaying v \<and> \<not> isProcessing v \<and> ws_open s \<and> silentChunksRef s = 0
      \<longrightarrow> silentChunksRef (deliver v es s)
            = int (trailing_silent es mod nat SILENCE_THRESHOLD)
          \<and> (int (trailing_silent es) < SILENCE_THRESHOLD
              \<longrightarrow> silentChunksRef (deliver v es s) = int (trailing_silent es))
          \<and> (\<not> classified_silent e
              \<longrightarrow> silentChunksRef (deliver v (es @ [e]) s) = 0))
   \<and> (isPlaying v \<or> isProcessing v
      \<longrightarrow> silentChunksRef (deliver v es s) = silentChunksRef s)"
proof -
  have cnt: "silentChunksRef (deliver v xs s)
             = int (trailing_silent xs mod nat SILENCE_THRESHOLD)"
    if "\<not> isPlaying v" "\<not> isProcessing v" "ws_open s" "silentChunksRef s = 0" for xs
    using deliver_counter [OF that, of xs] by (simp add: SILENCE_THRESHOLD_def)
  have speech: "trailing_silent (es @ [e]) = 0" if "\<not> classified_silent e"
    using that by (simp add: trailing_silent_snoc classified_silent_def)
  show ?thesis
    using cnt [of es] cnt [of "es @ [e]"] speech deliver_nonneg [of s v es]
      deliver_withheld(1) [of v es s]
    by (auto simp add: SILENCE_THRESHOLD_def)
qed

text \<open>The theorem on the chunks of scenario A, followed by a chunk of exactly 1000
  bytes, and under a scope with a flush pending.\<close>

theorem C6_witness:
  "0 \<le> silentChunksRef (run session_start init)
   \<and> \<not> isPlaying fresh \<and> \<not> isProcessing fresh \<and> ws_open (run session_start init)
   \<and> silentChunksRef (run session_start init) = 0
   \<and> int (trailing_silent [1200, 1100, 900, 800, 950]) < SILENCE_THRESHOLD
   \<and> \<not> classified_silent 1000
   \<and> silentChunksRef
         (deliver fresh [1200, 1100, 900, 800, 950] (run session_start init)) = 3
   \<and> silentChunksRef
         (deliver fresh ([1200, 1100, 900, 800, 950] @ [1000]) (run session_start init)) = 0
   \<and> (isPlaying processing_scope \<or> isProcessing processing_scope)
   \<and> silentChunksRef
         (deliver processing_scope [1200, 1100, 900, 800, 950] (run session_start init)) = 0"
proof -
  have f: "\<not> isPlaying fresh" "\<not> isProcessing fresh"
    by (simp_all add: fresh_def)
  have p: "isPlaying processing_scope \<or> isProcessing processing_scope"
    by (simp add: processing_scope_def)
  have t: "trailing_silent [1200, 1100, 900, 800, 950] = 3"
    by (simp add: trailing_silent_def classified_silent_def)
  have c: "\<not> classified_silent 1000"
    by (simp add: classified_silent_def)
  have a: "silentChunksRef
             (deliver fresh [1200, 1100, 900, 800, 950] (run session_start init)) = 3
           \<and> silentChunksRef
             (deliver fresh ([1200, 1100, 900, 800, 950] @ [1000])
                (run session_start init)) = 0"
    using C6_silence_run_below_threshold
      [of "run session_start init" fresh "[1200, 1100, 900, 800, 950]" 1000]
      f t c session_start_facts(1,3)
    by (simp add: SILENCE_THRESHOLD_def)
  have b: "silentChunksRef
             (deliver processing_scope [1200, 1100, 900, 800, 950]
                (run session_start init)) = 0"
    using C6_silence_run_below_threshold
      [of "run session_start init" processing_scope "[1200, 1100, 900, 800, 950]" 1000]
      p session_start_facts(3)
    by simp
  from a b f p t c session_start_facts(1,3) show ?thesis
    by (simp add: SILENCE_THRESHOLD_def)
qed

text \<open>Scenario B: after the fifth silent chunk the trailing run is 5 and the counter
  is 0, since \<open>stopRecording\<close> resets it (line 37).\<close>

theorem C6_counterexample:
  "silentChunksRef (run scenario_B init) = 0
   \<and> trailing_silent [900, 900, 900, 900, 900] = 5"
  by (simp add: scenario_B_def eval_defs trailing_silent_def classified_silent_def)

section \<open>Ready for the next input\<close>

text \<open>
  Claim C7, as the code has it. The status \<open>CLIENT_READY\<close> clears \<open>isPlaying\<close> and
  \<open>isProcessing\<close> and changes nothing else: it does not start capture (the recorder and
  \<open>isRecording\<close> stay as they are; the button is enabled again). Where both flags are
  already clear, as while listening, the message changes nothing.
\<close>

theorem C7_client_ready_clears_flags:
  "handleWSMessage (Text ''[Status] CLIENT_READY'') s
     = s\<lparr> ui := (ui s)\<lparr> isPlaying := False, isProcessing := False \<rparr> \<rparr>
   \<and> mediaRecorderRef (handleWSMessage (Text ''[Status] CLIENT_READY'') s)
       = mediaRecorderRef s
   \<and> isRecording (ui (handleWSMessage (Text ''[Status] CLIENT_READY'') s))
       = isRecording (ui s)
   \<and> (\<not> isPlaying (ui s) \<and> \<not> isProcessing (ui s)
       \<longrightarrow> handleWSMessage (Text ''[Status] CLIENT_READY'') s = s)"
  by (simp add: handleWSMessage_def setter_defs)

text \<open>The theorem while listening, after one speech chunk and one silent chunk.\<close>

theorem C7_witness:
  "\<not> isPlaying (ui (run scenario_one_silent init))
   \<and> \<not> isProcessing (ui (run scenario_one_silent init))
   \<and> recorder_active (run scenario_one_silent init)
   \<and> handleWSMessage (Text ''[Status] CLIENT_READY'') (run scenario_one_silent init)
       = run scenario_one_silent init"
proof -
  have "\<not> isPlaying (ui (run scenario_one_silent init))"
    "\<not> isProcessing (ui (run scenario_one_silent init))"
    "recorder_active (run scenario_one_silent init)"
    by (simp_all add: scenario_one_silent_def eval_defs)
  then show ?thesis
    using C7_client_ready_clears_flags [of "run scenario_one_silent init"]
    by blast
qed

text \<open>After a full turn the client waits with \<open>isPlaying\<close> set and the recorder
  inactive; \<open>CLIENT_READY\<close> leaves the recorder inactive and \<open>isRecording\<close> clear.\<close>

theorem C7_counterexample:
  "isPlaying (ui (run scenario_awaiting_ready init))
   \<and> \<not> recorder_active (run scenario_awaiting_ready init)
   \<and> \<not> recorder_active
         (step (WsMessage (Text ''[Status] CLIENT_READY''))
            (run scenario_awaiting_ready init))
   \<and> \<not> isRecording (ui
         (step (WsMessage (Text ''[Status] CLIENT_READY''))
            (run scenario_awaiting_ready init)))"
  by (simp add: scenario_awaiting_ready_def eval_defs)

section \<open>Chunks and the utterance buffer\<close>

text \<open>
  Claim C8 on a recorder created while a flush is pending. After the reconnection the
  recorder is recording on an open socket and the utterance buffer
  \<open>currentAudioChunksRef\<close> is empty. A speech chunk of 1500 bytes is then neither
  appended to that buffer nor sent: it is kept in \<open>audioChunksRef\<close> only, which the code
  never reads.
\<close>

theorem C8_chunk_dropped_while_processing:
  "recorder_active (run scenario_reconnect init)
   \<and> ws_open (run scenario_reconnect init)
   \<and> currentAudioChunksRef (run scenario_reconnect init) = []
   \<and> sent (run scenario_reconnect init)
       = [Binary [1200], Text ''PAUSE_PROCESSING'', Binary [1200, 900, 800]]
   \<and> currentAudioChunksRef (run scenario_reconnect_speech init) = []
   \<and> sent (run scenario_reconnect_speech init)
       = [Binary [1200], Text ''PAUSE_PROCESSING'', Binary [1200, 900, 800]]
   \<and> audioChunksRef (run scenario_reconnect_speech init) = [1200, 900, 800, 1500]"
  by (simp add: scenario_reconnect_def scenario_reconnect_speech_def eval_defs)

section \<open>Stopping capture\<close>

text \<open>
  Claim C9, as the code has it. \<open>stopRecording\<close> is idempotent and leaves the recorder
  inactive; it leaves both chunk buffers as they are and sets the silence counter to 0.
\<close>

theorem C9_stopRecording_idempotent_resets_counter:
  "stopRecording (stopRecording s) = stopRecording s
   \<and> \<not> recorder_active (stopRecording s)
   \<and> audioChunksRef (stopRecording s) = audioChunksRef s
   \<and> currentAudioChunksRef (stopRecording s) = currentAudioChunksRef s
   \<and> silentChunksRef (stopRecording s) = 0"
  by (simp add: stopRecording_twice stopRecording_inactive stopRecording_frame)

text \<open>With one silent chunk counted, stopping sets the counter from 1 to 0.\<close>

theorem C9_counterexample:
  "silentChunksRef (run scenario_one_silent init) = 1
   \<and> silentChunksRef (stopRecording (run scenario_one_silent init)) = 0"
  by (simp add: scenario_one_silent_def eval_defs)

section \<open>The guard of the flush\<close>

text \<open>
  Claim C10 on scenario A. After the fourth chunk a flush is in progress: the marker
  and the payload have been sent, \<open>isProcessing\<close> is set, the buffer is empty and no
  \<open>PAUSE_PROCESSED\<close> has arrived. The fifth chunk is appended to the buffer and
  \<open>processPausedAudio\<close> sends a second marker and payload: its test of \<open>isProcessing\<close>
  (line 47) reads the constant of the scope that created the handler.
\<close>

theorem C10_flush_sent_while_processing:
  "isProcessing (ui (run scenario_A_fourth init))
   \<and> currentAudioChunksRef (run scenario_A_fourth init) = []
   \<and> sent (run scenario_A_fourth init) =
       [Binary [1200], Binary [1100],
        Text ''PAUSE_PROCESSING'', Binary [1200, 1100, 900, 800]]
   \<and> isProcessing (ui (run scenario_A init))
   \<and> sent (run scenario_A init) =
       sent (run scenario_A_fourth init) @ [Text ''PAUSE_PROCESSING'', Binary [950]]"
  by (simp add: scenario_A_def scenario_A_fourth_def eval_defs)

end
